theory Spec2Isabelle
  imports Complex_Main
begin

section \<open>Data model of the shadow mapping pass\<close>

text \<open>
  The pass (\<^verbatim>\<open>ShadowMappingPass.ts\<close>) talks to collaborators whose sources are not at
  hand: the CSM object, the render-graph descriptor, the settings bus,
  the renderer and the scene objects. Their data are records here; 4x4 matrices are an
  opaque type \<open>'m\<close> and \<^verbatim>\<open>Mat4.multiply\<close> is a parameter \<open>mul\<close> of every function that
  calls it. JavaScript numbers that only ever hold the integer constants of the source
  are \<open>int\<close>; terrain measures are \<open>real\<close> (rounding to 32-bit floats is not modelled).
\<close>

record 'm CSMCascadeCamera =
  projectionMatrix :: 'm
  matrixWorldInverse :: 'm

record 'm CSM =
  cascades :: int
  resolution :: int
  far :: int
  cascadeCameras :: "'m CSMCascadeCamera list"

text \<open>The size descriptor of the \<^verbatim>\<open>ShadowMaps\<close> render-pass resource.\<close>

record Descriptor =
  width :: int
  height :: int
  depth :: int

text \<open>
  A drawable handle. The type declarations of the meshes are not in the sources; following
  the data model of the specification every drawable has an identity (what \<^verbatim>\<open>draw()\<close>
  submits), an instance count and a frustum test against a cascade camera.
\<close>

record 'm Mesh =
  meshId :: nat
  instanceCount :: int
  inCameraFrustum :: "'m CSMCascadeCamera \<Rightarrow> bool"

record 'm Tile =
  tileMatrixWorld :: 'm
  extrudedMesh :: "'m Mesh option"
  huggingMesh :: "'m Mesh option"

text \<open>An instanced object and an instanced aircraft: a world matrix and a nullable mesh.\<close>

record 'm Instanced =
  matrixWorld :: 'm
  mesh :: "'m Mesh option"

text \<open>What \<^verbatim>\<open>terrain.getTileParams(tile)\<close> returns, as far as the pass reads it.\<close>

record TileParams =
  ring0Size :: real
  ring0SegmentCount :: int
  levelId :: int
  ring0Offset :: "real \<times> real"
  ring1Offset :: "real \<times> real"

text \<open>
  \<^verbatim>\<open>manager.sceneSystem.objects\<close>. The instanced-object registry is a JavaScript
  \<^verbatim>\<open>Map\<close>, iterated in insertion order: an association list.
\<close>

record 'm SceneObjects =
  csm :: "'m CSM"
  tiles :: "'m Tile list"
  getTileParams :: "'m Tile \<Rightarrow> TileParams"
  instancedObjects :: "(string \<times> 'm Instanced) list"
  instancedAircraft :: "'m Instanced list"

text \<open>Calls the settings handler makes on its collaborators, in the order it makes them.\<close>

datatype ConfigCall =
    CallUpdateCascades
  | CallDescriptorSetSize int int int

text \<open>
  The state of the pass: the scene objects it reaches through its manager, the descriptor
  of its \<^verbatim>\<open>ShadowMaps\<close> output, the texture of its \<^verbatim>\<open>TerrainRingHeight\<close> input and the
  record of the collaborator calls made so far.
\<close>

record 'm Pass =
  objects :: "'m SceneObjects"
  ShadowMaps :: Descriptor
  TerrainRingHeight :: nat
  calls :: "ConfigCall list"

section \<open>Applying the shadow quality setting\<close>

text \<open>
  Modelled from the spec: \<^verbatim>\<open>CSM.updateCascades\<close> is not in the sources. The
  specification says that it rebuilds the cascade cameras in full, one per cascade index
  below the cascade count, from the count and the far distance, and that the three
  settable fields are only read. The construction of one camera is the parameter \<open>mk\<close>.
\<close>

definition updateCascades ::
  "(int \<Rightarrow> int \<Rightarrow> nat \<Rightarrow> 'm CSMCascadeCamera) \<Rightarrow> 'm CSM \<Rightarrow> 'm CSM" where
  "updateCascades mk c =
     c\<lparr>cascadeCameras := map (mk (cascades c) (far c)) [0..<nat (cascades c)]\<rparr>"

text \<open>
  Modelled from the spec: the descriptor's own \<^verbatim>\<open>setSize(width, height, depth)\<close> is not
  in the sources; the specification has it redescribe the resource to the given width,
  height and depth.
\<close>

definition descriptor_setSize :: "int \<Rightarrow> int \<Rightarrow> int \<Rightarrow> Descriptor \<Rightarrow> Descriptor" where
  "descriptor_setSize w h d r = r\<lparr>width := w, height := h, depth := d\<rparr>"

definition updateShadowMapDescriptor :: "'m Pass \<Rightarrow> 'm Pass" where
  "updateShadowMapDescriptor p =
     (let c = csm (objects p) in
      p\<lparr>ShadowMaps := descriptor_setSize (resolution c) (resolution c) (cascades c) (ShadowMaps p),
        calls := calls p @ [CallDescriptorSetSize (resolution c) (resolution c) (cascades c)]\<rparr>)"

text \<open>The callback that \<^verbatim>\<open>listenToSettings\<close> registers for the key \<^verbatim>\<open>'shadows'\<close>.\<close>

definition shadows_handler ::
  "(int \<Rightarrow> int \<Rightarrow> nat \<Rightarrow> 'm CSMCascadeCamera) \<Rightarrow> string \<Rightarrow> 'm Pass \<Rightarrow> 'm Pass" where
  "shadows_handler mk statusValue p =
     (let c = csm (objects p);
          c1 = (if statusValue = ''low''
                then c\<lparr>cascades := 1, resolution := 2048, far := 3000\<rparr>
                else if statusValue = ''medium''
                then c\<lparr>cascades := 3, resolution := 2048, far := 4000\<rparr>
                else c\<lparr>cascades := 3, resolution := 4096, far := 5000\<rparr>);
          c2 = updateCascades mk c1;
          p1 = p\<lparr>objects := (objects p)\<lparr>csm := c2\<rparr>, calls := calls p @ [CallUpdateCascades]\<rparr>
      in updateShadowMapDescriptor p1)"

text \<open>
  Modelled from the spec: \<^verbatim>\<open>settings.onChange(key, handler, fireImmediately)\<close> is not
  in the sources. The specification has it invoke the handler once, synchronously, with the
  current value of the key when the flag is set, and again on each later change of the value.
\<close>

definition onChange :: "(string \<Rightarrow> 's \<Rightarrow> 's) \<Rightarrow> bool \<Rightarrow> string \<Rightarrow> 's \<Rightarrow> 's" where
  "onChange handler fireImmediately current s = (if fireImmediately then handler current s else s)"

definition settingsChanged :: "(string \<Rightarrow> 's \<Rightarrow> 's) \<Rightarrow> string list \<Rightarrow> 's \<Rightarrow> 's" where
  "settingsChanged handler changes s = fold handler changes s"

definition listenToSettings ::
  "(int \<Rightarrow> int \<Rightarrow> nat \<Rightarrow> 'm CSMCascadeCamera) \<Rightarrow> string \<Rightarrow> 'm Pass \<Rightarrow> 'm Pass" where
  "listenToSettings mk current p = onChange (shadows_handler mk) True current p"

text \<open>The policy table of the handler, read off a configured CSM object.\<close>

definition activeConfig :: "'m Pass \<Rightarrow> int \<times> int \<times> int" where
  "activeConfig p = (cascades (csm (objects p)), resolution (csm (objects p)), far (csm (objects p)))"

text \<open>The resize entry point of the pass: its body is empty.\<close>

definition setSize :: "int \<Rightarrow> int \<Rightarrow> 'm Pass \<Rightarrow> 'm Pass" where
  "setSize w h p = p"

section \<open>The water mask object\<close>

datatype AttributeType = Float32
datatype AttributeFormat = Float

record 'v AttributeParams =
  attributeName :: string
  attributeType :: AttributeType
  attributeFormat :: AttributeFormat
  attributeSize :: nat
  normalized :: bool
  attributeData :: 'v

text \<open>
  The renderer's two factory methods are not in the sources: they are parameters, acting on
  an opaque renderer state \<open>'r\<close> and returning an attribute \<open>'a\<close> and a mesh object \<open>'h\<close>.
  A created mesh is an object, never \<^verbatim>\<open>null\<close>.
\<close>

record ('v, 'a, 'h, 'r) AbstractRenderer =
  createAttribute :: "'v AttributeParams \<Rightarrow> 'r \<Rightarrow> 'a \<times> 'r"
  createMesh :: "'a list \<Rightarrow> 'r \<Rightarrow> 'h \<times> 'r"

record ('v, 'h) WaterMask =
  waterMesh :: "'h option"
  verticesBuffer :: 'v

definition newWaterMask :: "'v \<Rightarrow> ('v, 'h) WaterMask" where
  "newWaterMask vertices = \<lparr>waterMesh = None, verticesBuffer = vertices\<rparr>"

definition isMeshReady :: "('v, 'h) WaterMask \<Rightarrow> bool" where
  "isMeshReady w = (waterMesh w \<noteq> None)"

definition positionAttribute :: "'v \<Rightarrow> 'v AttributeParams" where
  "positionAttribute buf =
     \<lparr>attributeName = ''position'', attributeType = Float32, attributeFormat = Float,
      attributeSize = 2, normalized = False, attributeData = buf\<rparr>"

definition updateMesh ::
  "('v, 'a, 'h, 'r) AbstractRenderer \<Rightarrow> ('v, 'h) WaterMask \<Rightarrow> 'r \<Rightarrow> ('v, 'h) WaterMask \<times> 'r" where
  "updateMesh renderer w r =
     (if waterMesh w = None
      then (let (a, r1) = createAttribute renderer (positionAttribute (verticesBuffer w)) r;
                (m, r2) = createMesh renderer [a] r1
            in (w\<lparr>waterMesh := Some m\<rparr>, r2))
      else (w, r))"

section \<open>Rendering the cascades\<close>

text \<open>
  The five depth materials of the pass, and what the pass asks of the renderer: every call
  that reaches the renderer, a material or a mesh is one event, in program order.
\<close>

datatype Material =
    buildingDepthMaterial
  | huggingMeshMaterial
  | treeMaterial
  | instanceMaterial
  | aircraftMaterial

datatype 'm UniformValue =
    UMatrix4 'm
  | UFloat1 real
  | UFloat4 "real list"
  | UTexture nat

datatype 'm Event =
    SetSlice nat
  | BeginRenderPass
  | UseMaterial Material
  | SetUniform Material string "string option" "'m UniformValue"
  | UpdateUniformBlock Material string
  | Draw nat

text \<open>
  Reading a property of \<^verbatim>\<open>null\<close> raises a \<^verbatim>\<open>TypeError\<close>. A run either completes or is
  cut short by the error; the events issued before the error have happened either way.
\<close>

datatype Error = TypeError

datatype 'e Outcome =
    Done "'e list"
  | Raised Error "'e list"

fun andThen :: "'e Outcome \<Rightarrow> 'e Outcome \<Rightarrow> 'e Outcome" where
  "andThen (Done xs) (Done ys) = Done (xs @ ys)"
| "andThen (Done xs) (Raised e ys) = Raised e (xs @ ys)"
| "andThen (Raised e xs) next = Raised e xs"

fun emitted :: "'e Outcome \<Rightarrow> 'e list" where
  "emitted (Done xs) = xs"
| "emitted (Raised e xs) = xs"

fun completed :: "'e Outcome \<Rightarrow> bool" where
  "completed (Done xs) = True"
| "completed (Raised e xs) = False"

fun buildingsLoop ::
  "('m \<Rightarrow> 'm \<Rightarrow> 'm) \<Rightarrow> 'm CSMCascadeCamera \<Rightarrow> 'm Tile list \<Rightarrow> 'm Event list" where
  "buildingsLoop mul shadowCamera [] = []"
| "buildingsLoop mul shadowCamera (tile # rest) =
     (case extrudedMesh tile of
        None \<Rightarrow> buildingsLoop mul shadowCamera rest
      | Some m \<Rightarrow>
          if \<not> inCameraFrustum m shadowCamera then buildingsLoop mul shadowCamera rest
          else [SetUniform buildingDepthMaterial ''modelViewMatrix'' (Some ''PerMesh'')
                  (UMatrix4 (mul (matrixWorldInverse shadowCamera) (tileMatrixWorld tile))),
                UpdateUniformBlock buildingDepthMaterial ''PerMesh'',
                Draw (meshId m)]
               @ buildingsLoop mul shadowCamera rest)"

definition renderBuildings ::
  "('m \<Rightarrow> 'm \<Rightarrow> 'm) \<Rightarrow> 'm Pass \<Rightarrow> 'm CSMCascadeCamera \<Rightarrow> 'm Event list" where
  "renderBuildings mul p shadowCamera =
     [UseMaterial buildingDepthMaterial,
      SetUniform buildingDepthMaterial ''projectionMatrix'' (Some ''PerMaterial'')
        (UMatrix4 (projectionMatrix shadowCamera)),
      UpdateUniformBlock buildingDepthMaterial ''PerMaterial'']
     @ buildingsLoop mul shadowCamera (tiles (objects p))"

fun huggingLoop ::
  "('m \<Rightarrow> 'm \<Rightarrow> 'm) \<Rightarrow> ('m Tile \<Rightarrow> TileParams) \<Rightarrow> 'm CSMCascadeCamera \<Rightarrow> 'm Tile list
     \<Rightarrow> 'm Event list" where
  "huggingLoop mul params shadowCamera [] = []"
| "huggingLoop mul params shadowCamera (tile # rest) =
     (case huggingMesh tile of
        None \<Rightarrow> huggingLoop mul params shadowCamera rest
      | Some m \<Rightarrow>
          if \<not> inCameraFrustum m shadowCamera then huggingLoop mul params shadowCamera rest
          else (let tp = params tile in
                [SetUniform huggingMeshMaterial ''modelViewMatrix'' (Some ''PerMesh'')
                   (UMatrix4 (mul (matrixWorldInverse shadowCamera) (tileMatrixWorld tile))),
                 SetUniform huggingMeshMaterial ''terrainRingSize'' (Some ''PerMesh'')
                   (UFloat1 (ring0Size tp)),
                 SetUniform huggingMeshMaterial ''terrainRingOffset'' (Some ''PerMesh'')
                   (UFloat4 [fst (ring0Offset tp), snd (ring0Offset tp),
                             fst (ring1Offset tp), snd (ring1Offset tp)]),
                 SetUniform huggingMeshMaterial ''terrainLevelId'' (Some ''PerMesh'')
                   (UFloat1 (of_int (levelId tp))),
                 SetUniform huggingMeshMaterial ''segmentCount'' (Some ''PerMesh'')
                   (UFloat1 (of_int (ring0SegmentCount tp * 2))),
                 UpdateUniformBlock huggingMeshMaterial ''PerMesh'',
                 Draw (meshId m)])
               @ huggingLoop mul params shadowCamera rest)"

definition renderHuggingMeshes ::
  "('m \<Rightarrow> 'm \<Rightarrow> 'm) \<Rightarrow> 'm Pass \<Rightarrow> 'm CSMCascadeCamera \<Rightarrow> 'm Event list" where
  "renderHuggingMeshes mul p shadowCamera =
     [SetUniform huggingMeshMaterial ''tRingHeight'' None (UTexture (TerrainRingHeight p)),
      UseMaterial huggingMeshMaterial,
      SetUniform huggingMeshMaterial ''projectionMatrix'' (Some ''PerMaterial'')
        (UMatrix4 (projectionMatrix shadowCamera)),
      UpdateUniformBlock huggingMeshMaterial ''PerMaterial'']
     @ huggingLoop mul (getTileParams (objects p)) shadowCamera (tiles (objects p))"

text \<open>
  The material of an instanced object and the calls made before its mesh is touched.
\<close>

definition instanceMaterialFor :: "string \<Rightarrow> Material" where
  "instanceMaterialFor name = (if name = ''tree'' then treeMaterial else instanceMaterial)"

definition instanceSetup ::
  "('m \<Rightarrow> 'm \<Rightarrow> 'm) \<Rightarrow> 'm CSMCascadeCamera \<Rightarrow> string \<Rightarrow> 'm Instanced \<Rightarrow> 'm Event list" where
  "instanceSetup mul shadowCamera name instancedObject =
     (let mvMatrix = mul (matrixWorldInverse shadowCamera) (matrixWorld instancedObject);
          material = instanceMaterialFor name
      in [UseMaterial material,
          SetUniform material ''projectionMatrix'' (Some ''MainBlock'')
            (UMatrix4 (projectionMatrix shadowCamera)),
          SetUniform material ''modelViewMatrix'' (Some ''MainBlock'') (UMatrix4 mvMatrix),
          UpdateUniformBlock material ''MainBlock''])"

fun instancesLoop ::
  "('m \<Rightarrow> 'm \<Rightarrow> 'm) \<Rightarrow> 'm CSMCascadeCamera \<Rightarrow> (string \<times> 'm Instanced) list
     \<Rightarrow> 'm Event Outcome" where
  "instancesLoop mul shadowCamera [] = Done []"
| "instancesLoop mul shadowCamera ((name, instancedObject) # rest) =
     (case mesh instancedObject of
        None \<Rightarrow> Raised TypeError (instanceSetup mul shadowCamera name instancedObject)
      | Some m \<Rightarrow>
          andThen (Done (instanceSetup mul shadowCamera name instancedObject @ [Draw (meshId m)]))
            (instancesLoop mul shadowCamera rest))"

definition renderInstances ::
  "('m \<Rightarrow> 'm \<Rightarrow> 'm) \<Rightarrow> 'm Pass \<Rightarrow> 'm CSMCascadeCamera \<Rightarrow> 'm Event Outcome" where
  "renderInstances mul p shadowCamera =
     instancesLoop mul shadowCamera (instancedObjects (objects p))"

text \<open>One turn of the aircraft loop, and the loop over the indices of the list.\<close>

definition aircraftStep ::
  "('m \<Rightarrow> 'm \<Rightarrow> 'm) \<Rightarrow> 'm CSMCascadeCamera \<Rightarrow> 'm Instanced \<Rightarrow> 'm Event list" where
  "aircraftStep mul shadowCamera aircraft =
     (case mesh aircraft of
        None \<Rightarrow> []
      | Some m \<Rightarrow>
          if instanceCount m > 0
          then [UseMaterial aircraftMaterial,
                SetUniform aircraftMaterial ''projectionMatrix'' (Some ''MainBlock'')
                  (UMatrix4 (projectionMatrix shadowCamera)),
                SetUniform aircraftMaterial ''modelViewMatrix'' (Some ''MainBlock'')
                  (UMatrix4 (mul (matrixWorldInverse shadowCamera) (matrixWorld aircraft))),
                UpdateUniformBlock aircraftMaterial ''MainBlock'',
                Draw (meshId m)]
          else [])"

function aircraftFrom ::
  "('m \<Rightarrow> 'm \<Rightarrow> 'm) \<Rightarrow> 'm CSMCascadeCamera \<Rightarrow> 'm Instanced list \<Rightarrow> nat \<Rightarrow> 'm Event list" where
  "aircraftFrom mul shadowCamera aircraftList i =
     (if i < length aircraftList
      then aircraftStep mul shadowCamera (aircraftList ! i)
           @ aircraftFrom mul shadowCamera aircraftList (Suc i)
      else [])"
  by pat_completeness auto
termination
  by (relation "measure (\<lambda>(mul, shadowCamera, aircraftList, i). length aircraftList - i)") auto

declare aircraftFrom.simps [simp del]

definition renderAircraft ::
  "('m \<Rightarrow> 'm \<Rightarrow> 'm) \<Rightarrow> 'm Pass \<Rightarrow> 'm CSMCascadeCamera \<Rightarrow> 'm Event list" where
  "renderAircraft mul p shadowCamera =
     aircraftFrom mul shadowCamera (instancedAircraft (objects p)) 0"

text \<open>The body of the cascade loop of \<^verbatim>\<open>render\<close> for index \<open>i\<close>, and the loop.\<close>

definition renderCascade ::
  "('m \<Rightarrow> 'm \<Rightarrow> 'm) \<Rightarrow> 'm Pass \<Rightarrow> nat \<Rightarrow> 'm CSMCascadeCamera \<Rightarrow> 'm Event Outcome" where
  "renderCascade mul p i camera =
     andThen (Done [SetSlice i, BeginRenderPass])
       (andThen (if i < 2
                 then andThen (renderInstances mul p camera) (Done (renderAircraft mul p camera))
                 else Done [])
          (andThen (Done (renderBuildings mul p camera))
             (Done (renderHuggingMeshes mul p camera))))"

function renderFrom :: "('m \<Rightarrow> 'm \<Rightarrow> 'm) \<Rightarrow> 'm Pass \<Rightarrow> nat \<Rightarrow> 'm Event Outcome" where
  "renderFrom mul p i =
     (if i < length (cascadeCameras (csm (objects p)))
      then andThen (renderCascade mul p i (cascadeCameras (csm (objects p)) ! i))
             (renderFrom mul p (Suc i))
      else Done [])"
  by pat_completeness auto
termination
  by (relation "measure (\<lambda>(mul, p, i). length (cascadeCameras (csm (objects p))) - i)") auto

declare renderFrom.simps [simp del]

definition render :: "('m \<Rightarrow> 'm \<Rightarrow> 'm) \<Rightarrow> 'm Pass \<Rightarrow> 'm Event Outcome" where
  "render mul p = renderFrom mul p 0"

text \<open>
  Reading a run of events as the renderer does: a draw uses the material bound last.
  \<open>drawsWith cur es\<close> lists, for every draw of \<open>es\<close>, the mesh drawn and the
  material bound at that moment, \<open>cur\<close> being the one bound before \<open>es\<close>.
\<close>

fun drawsWith :: "Material option \<Rightarrow> 'm Event list \<Rightarrow> (nat \<times> Material option) list" where
  "drawsWith cur [] = []"
| "drawsWith cur (UseMaterial m # es) = drawsWith (Some m) es"
| "drawsWith cur (Draw k # es) = (k, cur) # drawsWith cur es"
| "drawsWith cur (e # es) = drawsWith cur es"

text \<open>Events that bind a material, and events that concern a given uniform block.\<close>

fun isBind :: "'m Event \<Rightarrow> bool" where
  "isBind (UseMaterial m) = True"
| "isBind e = False"

fun isDraw :: "'m Event \<Rightarrow> bool" where
  "isDraw (Draw k) = True"
| "isDraw e = False"

fun writesUniform :: "string \<Rightarrow> 'm Event \<Rightarrow> bool" where
  "writesUniform u (SetUniform m n b v) = (n = u)"
| "writesUniform u e = False"

fun flushesBlock :: "string \<Rightarrow> 'm Event \<Rightarrow> bool" where
  "flushesBlock b (UpdateUniformBlock m n) = (n = b)"
| "flushesBlock b e = False"

text \<open>An entry of the instanced-object registry whose mesh is an object, not \<^verbatim>\<open>null\<close>.\<close>

definition hasMesh :: "string \<times> 'm Instanced \<Rightarrow> bool" where
  "hasMesh entry = (mesh (snd entry) \<noteq> None)"

text \<open>An aircraft that passes the guard of the aircraft loop.\<close>

definition aircraftDrawn :: "'m Instanced \<Rightarrow> bool" where
  "aircraftDrawn aircraft =
     (case mesh aircraft of None \<Rightarrow> False | Some m \<Rightarrow> instanceCount m > 0)"

text \<open>The same object with the frustum test of its mesh, if it has one, replaced by \<open>test\<close>.\<close>

definition withFrustumTest :: "('m CSMCascadeCamera \<Rightarrow> bool) \<Rightarrow> 'm Instanced \<Rightarrow> 'm Instanced" where
  "withFrustumTest test ob = ob\<lparr>mesh := map_option (\<lambda>m. m\<lparr>inCameraFrustum := test\<rparr>) (mesh ob)\<rparr>"

text \<open>The events of cascade \<open>i\<close> when none of its calls raises, category by category.\<close>

definition cascadeEvents ::
  "('m \<Rightarrow> 'm \<Rightarrow> 'm) \<Rightarrow> 'm Pass \<Rightarrow> nat \<Rightarrow> 'm CSMCascadeCamera \<Rightarrow> 'm Event list" where
  "cascadeEvents mul p i cam =
     [SetSlice i, BeginRenderPass]
     @ (if i < 2 then emitted (renderInstances mul p cam) @ renderAircraft mul p cam else [])
     @ renderBuildings mul p cam @ renderHuggingMeshes mul p cam"

section \<open>A small scene\<close>

text \<open>
  A concrete scene on which the theorems below are instantiated. Matrices are natural
  numbers and the product of two matrices is their sum; camera \<open>i\<close> has projection
  \<open>100 + i\<close>.
\<close>

definition exampleCamera :: "nat \<Rightarrow> nat CSMCascadeCamera" where
  "exampleCamera i = \<lparr>projectionMatrix = 100 + i, matrixWorldInverse = 200 + i\<rparr>"

definition exampleMk :: "int \<Rightarrow> int \<Rightarrow> nat \<Rightarrow> nat CSMCascadeCamera" where
  "exampleMk n farDistance i = exampleCamera i"

definition inNearCascade :: "nat CSMCascadeCamera \<Rightarrow> bool" where
  "inNearCascade cam = (projectionMatrix cam = 100)"

definition inEveryCascade :: "nat CSMCascadeCamera \<Rightarrow> bool" where
  "inEveryCascade cam = True"

definition outsideMiddleCascade :: "nat CSMCascadeCamera \<Rightarrow> bool" where
  "outsideMiddleCascade cam = (projectionMatrix cam \<noteq> 101)"

definition inNoCascade :: "nat CSMCascadeCamera \<Rightarrow> bool" where
  "inNoCascade cam = False"

definition exampleMesh :: "nat \<Rightarrow> int \<Rightarrow> (nat CSMCascadeCamera \<Rightarrow> bool) \<Rightarrow> nat Mesh" where
  "exampleMesh k n test = \<lparr>meshId = k, instanceCount = n, inCameraFrustum = test\<rparr>"

definition exampleTile :: "nat Tile" where
  "exampleTile =
     \<lparr>tileMatrixWorld = 1,
      extrudedMesh = Some (exampleMesh 10 1 inNearCascade),
      huggingMesh = Some (exampleMesh 11 1 outsideMiddleCascade)\<rparr>"

definition bareTile :: "nat Tile" where
  "bareTile = \<lparr>tileMatrixWorld = 2, extrudedMesh = None, huggingMesh = None\<rparr>"

definition exampleParams :: "nat Tile \<Rightarrow> TileParams" where
  "exampleParams tile =
     \<lparr>ring0Size = 8, ring0SegmentCount = 16, levelId = 0,
      ring0Offset = (0, 0), ring1Offset = (1, 1)\<rparr>"

definition exampleObjects :: "nat SceneObjects" where
  "exampleObjects =
     \<lparr>csm = \<lparr>cascades = 3, resolution = 4096, far = 5000,
             cascadeCameras = [exampleCamera 0, exampleCamera 1, exampleCamera 2]\<rparr>,
      tiles = [exampleTile, bareTile],
      getTileParams = exampleParams,
      instancedObjects =
        [(''tree'', \<lparr>matrixWorld = 3, mesh = Some (exampleMesh 20 5 inNoCascade)\<rparr>),
         (''rock'', \<lparr>matrixWorld = 4, mesh = Some (exampleMesh 21 5 inNoCascade)\<rparr>)],
      instancedAircraft =
        [\<lparr>matrixWorld = 5, mesh = Some (exampleMesh 30 2 inNoCascade)\<rparr>,
         \<lparr>matrixWorld = 6, mesh = Some (exampleMesh 31 0 inEveryCascade)\<rparr>,
         \<lparr>matrixWorld = 7, mesh = None\<rparr>]\<rparr>"

definition examplePass :: "nat Pass" where
  "examplePass =
     \<lparr>objects = exampleObjects,
      ShadowMaps = \<lparr>width = 0, height = 0, depth = 0\<rparr>,
      TerrainRingHeight = 9,
      calls = []\<rparr>"

text \<open>The same pass when the registry holds a tree object whose mesh was never created.\<close>

definition meshlessTreePass :: "nat Pass" where
  "meshlessTreePass =
     examplePass\<lparr>objects := exampleObjects
       \<lparr>instancedObjects := [(''tree'', \<lparr>matrixWorld = 3, mesh = None\<rparr>)]\<rparr>\<rparr>"

text \<open>The same pass with two aircraft, each with a mesh and instances to draw.\<close>

definition twoAircraftPass :: "nat Pass" where
  "twoAircraftPass =
     examplePass\<lparr>objects := exampleObjects
       \<lparr>instancedAircraft :=
          [\<lparr>matrixWorld = 5, mesh = Some (exampleMesh 30 2 inNoCascade)\<rparr>,
           \<lparr>matrixWorld = 8, mesh = Some (exampleMesh 32 1 inNoCascade)\<rparr>]\<rparr>\<rparr>"

text \<open>A renderer whose state counts the objects it has created.\<close>

definition exampleRenderer :: "(nat list, nat list, nat \<times> nat list list, nat) AbstractRenderer" where
  "exampleRenderer =
     \<lparr>createAttribute = (\<lambda>a r. (attributeData a, Suc r)),
      createMesh = (\<lambda>attrs r. ((r, attrs), Suc r))\<rparr>"

section \<open>Properties of the settings handler\<close>

lemma shadows_handler_csm:
  "csm (objects (shadows_handler mk v p)) =
     updateCascades mk
       (if v = ''low'' then (csm (objects p))\<lparr>cascades := 1, resolution := 2048, far := 3000\<rparr>
        else if v = ''medium'' then (csm (objects p))\<lparr>cascades := 3, resolution := 2048, far := 4000\<rparr>
        else (csm (objects p))\<lparr>cascades := 3, resolution := 4096, far := 5000\<rparr>)"
  by (simp add: shadows_handler_def updateShadowMapDescriptor_def Let_def)

lemma activeConfig_handler:
  "activeConfig (shadows_handler mk v p) =
     (if v = ''low'' then (1, 2048, 3000)
      else if v = ''medium'' then (3, 2048, 4000) else (3, 4096, 5000))"
  by (simp add: activeConfig_def shadows_handler_csm updateCascades_def)

lemma handler_ShadowMaps:
  "ShadowMaps (shadows_handler mk v p) =
     (ShadowMaps p)\<lparr>width := resolution (csm (objects (shadows_handler mk v p))),
                   height := resolution (csm (objects (shadows_handler mk v p))),
                   depth := cascades (csm (objects (shadows_handler mk v p)))\<rparr>"
  by (simp add: shadows_handler_def updateShadowMapDescriptor_def descriptor_setSize_def Let_def)

lemma handler_calls:
  "calls (shadows_handler mk v p) =
     calls p @ [CallUpdateCascades,
                CallDescriptorSetSize (if v = ''low'' \<or> v = ''medium'' then 2048 else 4096)
                  (if v = ''low'' \<or> v = ''medium'' then 2048 else 4096)
                  (if v = ''low'' then 1 else 3)]"
  by (simp add: shadows_handler_def updateShadowMapDescriptor_def updateCascades_def Let_def)

lemma handler_cameras:
  "int (length (cascadeCameras (csm (objects (shadows_handler mk v p))))) =
     cascades (csm (objects (shadows_handler mk v p)))"
  by (simp add: shadows_handler_csm updateCascades_def)

lemma fold_handler_calls:
  "calls (fold (shadows_handler mk) vs q) =
     calls q @ concat (map (\<lambda>v. [CallUpdateCascades,
                CallDescriptorSetSize (if v = ''low'' \<or> v = ''medium'' then 2048 else 4096)
                  (if v = ''low'' \<or> v = ''medium'' then 2048 else 4096)
                  (if v = ''low'' then 1 else 3)]) vs)"
  by (induction vs arbitrary: q) (simp_all add: handler_calls)

lemma fold_handler_last:
  "\<exists>v q. fold (shadows_handler mk) vs (shadows_handler mk v0 p0) = shadows_handler mk v q"
  by (induction vs rule: rev_induct) auto

text \<open>
  Claim C1. Whatever the pass was before, once the \<^verbatim>\<open>'shadows'\<close> handler has run with a
  value the CSM object holds the fixed triple of cascades, resolution and far distance:
  \<open>(1, 2048, 3000)\<close> for \<^verbatim>\<open>'low'\<close>, \<open>(3, 2048, 4000)\<close> for \<^verbatim>\<open>'medium'\<close>,
  \<open>(3, 4096, 5000)\<close> for \<^verbatim>\<open>'high'\<close>, and the high triple as well for every value that is
  neither \<^verbatim>\<open>'low'\<close> nor \<^verbatim>\<open>'medium'\<close>.
\<close>

theorem shadows_tier_mapping:
  "activeConfig (shadows_handler mk ''low'' p) = (1, 2048, 3000)
   \<and> activeConfig (shadows_handler mk ''medium'' p) = (3, 2048, 4000)
   \<and> activeConfig (shadows_handler mk ''high'' p) = (3, 4096, 5000)
   \<and> (v \<noteq> ''low'' \<and> v \<noteq> ''medium'' \<longrightarrow>
        activeConfig (shadows_handler mk v p) = (3, 4096, 5000))"
  by (simp add: activeConfig_handler)

text \<open>The unrecognised value \<^verbatim>\<open>'ultra'\<close> and the value \<^verbatim>\<open>'low'\<close> on the example pass.\<close>

theorem shadows_tier_mapping_witness:
  "''ultra'' \<noteq> ''low'' \<and> ''ultra'' \<noteq> ''medium''
   \<and> activeConfig (shadows_handler exampleMk ''ultra'' examplePass) = (3, 4096, 5000)
   \<and> activeConfig (shadows_handler exampleMk ''low'' examplePass) = (1, 2048, 3000)"
  using shadows_tier_mapping [of exampleMk examplePass "''ultra''"] by simp

text \<open>
  Claim C2. Take the pass after the immediate call of the handler at construction (value
  \<open>v0\<close>) and any further changes \<open>vs\<close> of the setting, repeated values included. Its
  descriptor has width and height equal to the resolution and depth equal to the cascade
  count of the CSM object, the cascade cameras are as many as the depth, and for every
  value applied the handler has called \<^verbatim>\<open>updateCascades\<close> first and the descriptor's
  \<^verbatim>\<open>setSize\<close> second, with the resolution twice and the cascade count. Applying a value a
  second time leaves configuration and descriptor as the first application left them.
\<close>

theorem shadows_descriptor_invariant:
  "(let p = settingsChanged (shadows_handler mk) vs (listenToSettings mk v0 p0) in
      width (ShadowMaps p) = resolution (csm (objects p))
    \<and> height (ShadowMaps p) = resolution (csm (objects p))
    \<and> depth (ShadowMaps p) = cascades (csm (objects p))
    \<and> int (length (cascadeCameras (csm (objects p)))) = depth (ShadowMaps p)
    \<and> calls p = calls p0 @ concat (map (\<lambda>v.
          [CallUpdateCascades,
           CallDescriptorSetSize (if v = ''low'' \<or> v = ''medium'' then 2048 else 4096)
             (if v = ''low'' \<or> v = ''medium'' then 2048 else 4096)
             (if v = ''low'' then 1 else 3)]) (v0 # vs)))
   \<and> activeConfig (shadows_handler mk v (shadows_handler mk v q)) = activeConfig (shadows_handler mk v q)
   \<and> ShadowMaps (shadows_handler mk v (shadows_handler mk v q)) = ShadowMaps (shadows_handler mk v q)"
proof -
  define p where "p = fold (shadows_handler mk) vs (shadows_handler mk v0 p0)"
  obtain v' q' where p: "p = shadows_handler mk v' q'"
    unfolding p_def using fold_handler_last by blast
  have dims: "width (ShadowMaps p) = resolution (csm (objects p))"
    "height (ShadowMaps p) = resolution (csm (objects p))"
    "depth (ShadowMaps p) = cascades (csm (objects p))"
    unfolding p by (simp_all add: handler_ShadowMaps)
  have cams: "int (length (cascadeCameras (csm (objects p)))) = depth (ShadowMaps p)"
    using dims(3) unfolding p by (simp only: handler_cameras)
  have log: "calls p = calls p0 @ concat (map (\<lambda>v.
          [CallUpdateCascades,
           CallDescriptorSetSize (if v = ''low'' \<or> v = ''medium'' then 2048 else 4096)
             (if v = ''low'' \<or> v = ''medium'' then 2048 else 4096)
             (if v = ''low'' then 1 else 3)]) (v0 # vs))"
    unfolding p_def by (simp add: fold_handler_calls handler_calls)
  have same: "activeConfig (shadows_handler mk v (shadows_handler mk v q)) = activeConfig (shadows_handler mk v q)"
    by (simp add: activeConfig_handler)
  have "resolution (csm (objects (shadows_handler mk v (shadows_handler mk v q)))) =
          resolution (csm (objects (shadows_handler mk v q)))"
       "cascades (csm (objects (shadows_handler mk v (shadows_handler mk v q)))) =
          cascades (csm (objects (shadows_handler mk v q)))"
    using same by (simp_all add: activeConfig_def)
  then have desc: "ShadowMaps (shadows_handler mk v (shadows_handler mk v q)) = ShadowMaps (shadows_handler mk v q)"
    by (simp add: handler_ShadowMaps [of mk v "shadows_handler mk v q"] handler_ShadowMaps [of mk v q])
  from dims cams log same desc show ?thesis
    by (simp add: settingsChanged_def listenToSettings_def onChange_def p_def Let_def)
qed

text \<open>Construction with \<^verbatim>\<open>'high'\<close>, then \<^verbatim>\<open>'medium'\<close> and \<^verbatim>\<open>'low'\<close> twice.\<close>

theorem shadows_descriptor_invariant_witness:
  "ShadowMaps (settingsChanged (shadows_handler exampleMk) [''medium'', ''low'', ''low'']
        (listenToSettings exampleMk ''high'' examplePass))
     = \<lparr>width = 2048, height = 2048, depth = 1\<rparr>
   \<and> length (cascadeCameras (csm (objects
        (settingsChanged (shadows_handler exampleMk) [''medium'', ''low'', ''low'']
           (listenToSettings exampleMk ''high'' examplePass))))) = 1
   \<and> calls (settingsChanged (shadows_handler exampleMk) [''medium'', ''low'', ''low'']
        (listenToSettings exampleMk ''high'' examplePass))
     = [CallUpdateCascades, CallDescriptorSetSize 4096 4096 3,
        CallUpdateCascades, CallDescriptorSetSize 2048 2048 3,
        CallUpdateCascades, CallDescriptorSetSize 2048 2048 1,
        CallUpdateCascades, CallDescriptorSetSize 2048 2048 1]"
  using shadows_descriptor_invariant [of exampleMk "[''medium'', ''low'', ''low'']" "''high''" examplePass]
  by (simp add: Let_def settingsChanged_def listenToSettings_def onChange_def shadows_handler_def
      updateShadowMapDescriptor_def updateCascades_def descriptor_setSize_def examplePass_def
      exampleObjects_def)

text \<open>
  Claim C9. \<^verbatim>\<open>setSize(width, height)\<close> returns the pass as it found it, for every pair of
  arguments, \<open>(0, 0)\<close> included: the \<^verbatim>\<open>ShadowMaps\<close> descriptor and the scene objects are
  those of before the call.
\<close>

theorem setSize_noop:
  "setSize w h p = p
   \<and> ShadowMaps (setSize w h p) = ShadowMaps p
   \<and> objects (setSize w h p) = objects p
   \<and> setSize 0 0 p = p"
  by (simp add: setSize_def)

text \<open>After the low tier was applied, resizing to nothing or to something huge changes nothing.\<close>

theorem setSize_noop_witness:
  "ShadowMaps (setSize 0 0 (shadows_handler exampleMk ''low'' examplePass))
     = \<lparr>width = 2048, height = 2048, depth = 1\<rparr>
   \<and> ShadowMaps (setSize 100000000 100000000 (shadows_handler exampleMk ''low'' examplePass))
     = \<lparr>width = 2048, height = 2048, depth = 1\<rparr>"
  using setSize_noop [of 0 0 "shadows_handler exampleMk ''low'' examplePass"]
    setSize_noop [of 100000000 100000000 "shadows_handler exampleMk ''low'' examplePass"]
  by (simp add: handler_ShadowMaps shadows_handler_csm updateCascades_def examplePass_def)

section \<open>Properties of the water mask\<close>

text \<open>
  Claim C10. \<^verbatim>\<open>isMeshReady\<close> holds exactly when the mesh is not \<^verbatim>\<open>null\<close>. After
  \<^verbatim>\<open>updateMesh\<close> the mesh is ready and the vertices buffer is untouched. When no mesh was
  there, the new one is what the renderer's \<^verbatim>\<open>createMesh\<close> returns for the single
  position attribute built over the vertices buffer given at construction; when one was
  there, neither the object nor the renderer changes. A second call therefore leaves the
  mesh of the first call in place, and a freshly constructed water mask is not ready.
\<close>

theorem updateMesh_guarded:
  "isMeshReady w = (waterMesh w \<noteq> None)
   \<and> isMeshReady (fst (updateMesh renderer w r))
   \<and> verticesBuffer (fst (updateMesh renderer w r)) = verticesBuffer w
   \<and> (\<not> isMeshReady w \<longrightarrow>
        (let (a, r1) = createAttribute renderer (positionAttribute (verticesBuffer w)) r;
             (m, r2) = createMesh renderer [a] r1
         in updateMesh renderer w r = (w\<lparr>waterMesh := Some m\<rparr>, r2)))
   \<and> (isMeshReady w \<longrightarrow> updateMesh renderer w r = (w, r))
   \<and> updateMesh renderer (fst (updateMesh renderer w r)) r' = (fst (updateMesh renderer w r), r')
   \<and> \<not> isMeshReady (newWaterMask vertices :: ('v, 'h) WaterMask)
   \<and> verticesBuffer (newWaterMask vertices :: ('v, 'h) WaterMask) = vertices"
  by (auto simp: isMeshReady_def updateMesh_def newWaterMask_def Let_def split: prod.splits)

text \<open>A fresh water mask over four numbers, updated twice with the counting renderer.\<close>

theorem updateMesh_guarded_witness:
  "\<not> isMeshReady (newWaterMask [1, 2, 3, 4] :: (nat list, nat \<times> nat list list) WaterMask)
   \<and> updateMesh exampleRenderer (newWaterMask [1, 2, 3, 4]) 0
       = (\<lparr>waterMesh = Some (1, [[1, 2, 3, 4]]), verticesBuffer = [1, 2, 3, 4]\<rparr>, 2)
   \<and> isMeshReady \<lparr>waterMesh = Some (1, [[1, 2, 3, 4 :: nat]]), verticesBuffer = [1, 2, 3, 4 :: nat]\<rparr>
   \<and> updateMesh exampleRenderer
         \<lparr>waterMesh = Some (1, [[1, 2, 3, 4]]), verticesBuffer = [1, 2, 3, 4]\<rparr> 2
       = (\<lparr>waterMesh = Some (1, [[1, 2, 3, 4]]), verticesBuffer = [1, 2, 3, 4]\<rparr>, 2)"
  using updateMesh_guarded [of "newWaterMask [1, 2, 3, 4]" exampleRenderer 0 2 "[1, 2, 3, 4]"]
    updateMesh_guarded [of "\<lparr>waterMesh = Some (1, [[1, 2, 3, 4]]), verticesBuffer = [1, 2, 3, 4]\<rparr>"
      exampleRenderer 2 2 "[1, 2, 3, 4]"]
  by (simp add: newWaterMask_def exampleRenderer_def positionAttribute_def isMeshReady_def)

section \<open>Properties of the render loop\<close>

lemma andThen_Done:
  "andThen (Done xs) out =
     (case out of Done ys \<Rightarrow> Done (xs @ ys) | Raised e ys \<Rightarrow> Raised e (xs @ ys))"
  by (cases out) simp_all

lemma andThen_Done_Nil [simp]: "andThen out (Done []) = out"
  by (cases out) simp_all

lemma aircraftFrom_concat:
  "aircraftFrom mul cam xs i = concat (map (aircraftStep mul cam) (drop i xs))"
proof (induction mul cam xs i rule: aircraftFrom.induct)
  case (1 mul cam xs i)
  show ?case
  proof (cases "i < length xs")
    case True
    then have "drop i xs = xs ! i # drop (Suc i) xs"
      by (simp add: Cons_nth_drop_Suc)
    with True 1 show ?thesis
      by (subst aircraftFrom.simps) simp
  next
    case False
    then show ?thesis
      by (subst aircraftFrom.simps) simp
  qed
qed

lemma renderAircraft_concat:
  "renderAircraft mul p cam = concat (map (aircraftStep mul cam) (instancedAircraft (objects p)))"
  by (simp add: renderAircraft_def aircraftFrom_concat)

lemma instancesLoop_present:
  "list_all hasMesh entries \<Longrightarrow>
   instancesLoop mul cam entries =
     Done (concat (map (\<lambda>(name, ob). instanceSetup mul cam name ob @ [Draw (meshId (the (mesh ob)))]) entries))"
proof (induction entries)
  case Nil
  then show ?case by simp
next
  case (Cons entry entries)
  obtain name ob where e: "entry = (name, ob)" by (cases entry)
  from Cons.prems e obtain m where m: "mesh ob = Some m"
    by (auto simp: hasMesh_def)
  from Cons show ?case
    by (simp add: e m)
qed


lemma instancesLoop_absent:
  "\<not> list_all hasMesh entries \<Longrightarrow>
   instancesLoop mul cam entries = Raised TypeError (emitted (instancesLoop mul cam entries))"
proof (induction entries)
  case Nil
  then show ?case by simp
next
  case (Cons entry entries)
  obtain name ob where e: "entry = (name, ob)" by (cases entry)
  show ?case
  proof (cases "mesh ob")
    case None
    then show ?thesis by (simp add: e)
  next
    case (Some m)
    from e Some have "hasMesh entry"
      by (simp add: hasMesh_def)
    with Cons.prems have "\<not> list_all hasMesh entries"
      by simp
    then have "instancesLoop mul cam entries = Raised TypeError (emitted (instancesLoop mul cam entries))"
      by (rule Cons.IH)
    then obtain es where "instancesLoop mul cam entries = Raised TypeError es"
      by blast
    then show ?thesis by (simp add: e Some)
  qed
qed

lemma renderCascade_present:
  assumes "list_all hasMesh (instancedObjects (objects p))"
  shows "renderCascade mul p i cam = Done (cascadeEvents mul p i cam)"
proof -
  from assms obtain es where "renderInstances mul p cam = Done es"
    by (simp add: renderInstances_def instancesLoop_present)
  then show ?thesis
    by (simp add: renderCascade_def cascadeEvents_def)
qed

lemma renderCascade_absent:
  assumes "\<not> list_all hasMesh (instancedObjects (objects p))" and "i < 2"
  shows "renderCascade mul p i cam =
           Raised TypeError ([SetSlice i, BeginRenderPass] @ emitted (renderInstances mul p cam))"
proof -
  from assms(1) have "renderInstances mul p cam = Raised TypeError (emitted (renderInstances mul p cam))"
    unfolding renderInstances_def by (rule instancesLoop_absent)
  then obtain es where "renderInstances mul p cam = Raised TypeError es"
    by blast
  with assms(2) show ?thesis
    by (simp add: renderCascade_def)
qed

lemma renderFrom_present:
  assumes "list_all hasMesh (instancedObjects (objects p))"
  shows "renderFrom mul p i =
     Done (concat (map (\<lambda>k. cascadeEvents mul p k (cascadeCameras (csm (objects p)) ! k))
                    [i..<length (cascadeCameras (csm (objects p)))]))"
  using assms
proof (induction mul p i rule: renderFrom.induct)
  case (1 mul p i)
  show ?case
  proof (cases "i < length (cascadeCameras (csm (objects p)))")
    case True
    then have "[i..<length (cascadeCameras (csm (objects p)))] =
                 i # [Suc i..<length (cascadeCameras (csm (objects p)))]"
      by (simp add: upt_conv_Cons)
    with True 1 show ?thesis
      by (subst renderFrom.simps) (simp add: renderCascade_present)
  next
    case False
    then show ?thesis
      by (subst renderFrom.simps) simp
  qed
qed

text \<open>
  The cascade loop in closed form. For cascade \<open>i\<close> the pass selects slice \<open>i\<close> and
  begins the render pass, then renders the instanced objects and the aircraft exactly when
  \<open>i < 2\<close>, whatever the number of cascades, and then the buildings and the hugging meshes.
  This is the whole run when there is no cascade or every registered instanced object has a
  mesh; otherwise the run ends with a \<^verbatim>\<open>TypeError\<close> inside the instanced objects of
  cascade 0.
\<close>

lemma render_cascade_policy:
  "render mul p =
     (if cascadeCameras (csm (objects p)) = [] \<or> list_all hasMesh (instancedObjects (objects p))
      then Done (concat (map (\<lambda>i.
             [SetSlice i, BeginRenderPass]
             @ (if i < 2
                then emitted (renderInstances mul p (cascadeCameras (csm (objects p)) ! i))
                     @ renderAircraft mul p (cascadeCameras (csm (objects p)) ! i)
                else [])
             @ renderBuildings mul p (cascadeCameras (csm (objects p)) ! i)
             @ renderHuggingMeshes mul p (cascadeCameras (csm (objects p)) ! i))
             [0..<length (cascadeCameras (csm (objects p)))]))
      else Raised TypeError ([SetSlice 0, BeginRenderPass]
             @ emitted (renderInstances mul p (cascadeCameras (csm (objects p)) ! 0))))"
proof (cases "list_all hasMesh (instancedObjects (objects p))")
  case True
  then show ?thesis
    by (simp add: render_def renderFrom_present cascadeEvents_def)
next
  case False
  show ?thesis
  proof (cases "cascadeCameras (csm (objects p)) = []")
    case True
    then show ?thesis
      by (subst render_def, subst renderFrom.simps) simp
  next
    case nonempty: False
    then have "0 < length (cascadeCameras (csm (objects p)))" by simp
    then have "render mul p = andThen (renderCascade mul p 0 (cascadeCameras (csm (objects p)) ! 0))
                  (renderFrom mul p (Suc 0))"
      by (subst render_def, subst renderFrom.simps) simp
    with False nonempty show ?thesis
      by (simp add: renderCascade_absent)
  qed
qed

text \<open>The example scene with its three cascades: what is drawn, and with which material.\<close>

lemma render_cascade_policy_example:
  "length (cascadeCameras (csm (objects examplePass))) = 3
   \<and> list_all hasMesh (instancedObjects (objects examplePass))
   \<and> completed (render (+) examplePass)
   \<and> drawsWith None (emitted (render (+) examplePass)) =
     [(20, Some treeMaterial), (21, Some instanceMaterial), (30, Some aircraftMaterial),
      (10, Some buildingDepthMaterial), (11, Some huggingMeshMaterial),
      (20, Some treeMaterial), (21, Some instanceMaterial), (30, Some aircraftMaterial),
      (11, Some huggingMeshMaterial)]"
  using render_cascade_policy [of "(+)" examplePass]
  by (simp add: examplePass_def exampleObjects_def exampleMesh_def hasMesh_def exampleCamera_def
      renderInstances_def instanceSetup_def instanceMaterialFor_def Let_def
      renderAircraft_concat aircraftStep_def renderBuildings_def renderHuggingMeshes_def
      exampleTile_def bareTile_def inNearCascade_def inEveryCascade_def inNoCascade_def
      outsideMiddleCascade_def
      exampleParams_def upt_rec)

text \<open>
  Claim C3, at the input where it fails. The scene has three cascades, a tile whose
  building is inside cascade 0, and a registry whose only object, named \<^verbatim>\<open>'tree'\<close>, has
  no mesh. \<^verbatim>\<open>render\<close> does not complete: it stops inside the instanced objects of
  cascade 0, so that no building, no hugging mesh and no aircraft is rendered for any
  cascade, nothing is drawn, and the slices 1 and 2 are never selected.
\<close>

theorem meshless_frame_renders_no_buildings:
  "length (cascadeCameras (csm (objects meshlessTreePass))) = 3
   \<and> tiles (objects meshlessTreePass) = [exampleTile, bareTile]
   \<and> extrudedMesh exampleTile = Some (exampleMesh 10 1 inNearCascade)
   \<and> inCameraFrustum (exampleMesh 10 1 inNearCascade) (exampleCamera 0)
   \<and> \<not> completed (render (+) meshlessTreePass)
   \<and> filter isDraw (emitted (render (+) meshlessTreePass)) = []
   \<and> UseMaterial buildingDepthMaterial \<notin> set (emitted (render (+) meshlessTreePass))
   \<and> UseMaterial huggingMeshMaterial \<notin> set (emitted (render (+) meshlessTreePass))
   \<and> UseMaterial aircraftMaterial \<notin> set (emitted (render (+) meshlessTreePass))
   \<and> SetSlice 1 \<notin> set (emitted (render (+) meshlessTreePass))
   \<and> SetSlice 2 \<notin> set (emitted (render (+) meshlessTreePass))"
  using render_cascade_policy [of "(+)" meshlessTreePass]
  by (simp add: meshlessTreePass_def examplePass_def exampleObjects_def exampleTile_def
      exampleMesh_def inNearCascade_def exampleCamera_def hasMesh_def renderInstances_def
      instanceSetup_def instanceMaterialFor_def Let_def)

section \<open>Properties of the geometry categories\<close>

lemma emitted_andThen_Done: "emitted (andThen (Done xs) out) = xs @ emitted out"
  by (cases out) simp_all

lemma buildingsLoop_append:
  "buildingsLoop mul cam (xs @ ys) = buildingsLoop mul cam xs @ buildingsLoop mul cam ys"
  by (induction xs) (simp_all split: option.splits)

lemma huggingLoop_append:
  "huggingLoop mul params cam (xs @ ys) = huggingLoop mul params cam xs @ huggingLoop mul params cam ys"
  by (induction xs) (simp_all add: Let_def split: option.splits)

lemma aircraftStep_withFrustumTest:
  "aircraftStep mul cam (withFrustumTest test a) = aircraftStep mul cam a"
  by (simp add: aircraftStep_def withFrustumTest_def split: option.splits)

lemma instancesLoop_withFrustumTest:
  "instancesLoop mul cam (map (\<lambda>(name, ob). (name, withFrustumTest test ob)) entries)
     = instancesLoop mul cam entries"
proof (induction entries)
  case Nil
  then show ?case by simp
next
  case (Cons entry entries)
  obtain name ob where e: "entry = (name, ob)" by (cases entry)
  have same_setup: "instanceSetup mul cam name (withFrustumTest test ob) = instanceSetup mul cam name ob"
    by (simp add: instanceSetup_def withFrustumTest_def)
  have same_mesh: "mesh (withFrustumTest test ob)
                     = map_option (\<lambda>m. m\<lparr>inCameraFrustum := test\<rparr>) (mesh ob)"
    by (simp add: withFrustumTest_def)
  show ?case
    by (cases "mesh ob") (simp_all add: e same_setup same_mesh Cons.IH)
qed

lemma aircraft_drawn_member:
  "a \<in> set xs \<Longrightarrow> mesh a = Some m \<Longrightarrow> 0 < instanceCount m \<Longrightarrow>
   Draw (meshId m) \<in> set (concat (map (aircraftStep mul cam) xs))"
  by (induction xs) (auto simp: aircraftStep_def)

lemma instances_drawn_member:
  assumes "list_all hasMesh entries" and "(name, ob) \<in> set entries" and "mesh ob = Some m"
  shows "Draw (meshId m) \<in> set (emitted (instancesLoop mul cam entries))"
proof -
  have "Draw (meshId m) \<in> set (instanceSetup mul cam name ob @ [Draw (meshId (the (mesh ob)))])"
    using assms(3) by simp
  with assms(2) show ?thesis
    unfolding instancesLoop_present [OF assms(1)] by (fastforce simp: image_iff)
qed

text \<open>
  Claim C4, as amended. A tile whose extruded mesh fails the frustum test of the cascade
  camera adds nothing to what \<^verbatim>\<open>renderBuildings\<close> issues for that camera: the events are
  those of the scene without the tile. The same holds for its hugging mesh and
  \<^verbatim>\<open>renderHuggingMeshes\<close>. For a camera whose frustum the mesh does intersect, the mesh
  is drawn. Instanced objects and aircraft are not tested against the frustum: for every
  camera \<^verbatim>\<open>renderAircraft\<close> draws every aircraft whose mesh is present with a positive
  instance count, and \<^verbatim>\<open>renderInstances\<close>, when every registered object has a mesh,
  draws every one of them; and replacing the frustum test of their meshes by any other
  changes nothing of what the two functions do.
\<close>

theorem tiles_culled_by_frustum:
  assumes "tiles (objects p) = xs @ t # ys"
  shows "(extrudedMesh t = Some m \<and> \<not> inCameraFrustum m cam \<longrightarrow>
            renderBuildings mul p cam
              = renderBuildings mul (p\<lparr>objects := (objects p)\<lparr>tiles := xs @ ys\<rparr>\<rparr>) cam)
       \<and> (huggingMesh t = Some h \<and> \<not> inCameraFrustum h cam \<longrightarrow>
            renderHuggingMeshes mul p cam
              = renderHuggingMeshes mul (p\<lparr>objects := (objects p)\<lparr>tiles := xs @ ys\<rparr>\<rparr>) cam)
       \<and> (extrudedMesh t = Some m \<and> inCameraFrustum m cam' \<longrightarrow>
            Draw (meshId m) \<in> set (renderBuildings mul p cam'))
       \<and> (huggingMesh t = Some h \<and> inCameraFrustum h cam' \<longrightarrow>
            Draw (meshId h) \<in> set (renderHuggingMeshes mul p cam'))
       \<and> (a \<in> set (instancedAircraft (objects p)) \<and> mesh a = Some am \<and> 0 < instanceCount am \<longrightarrow>
            Draw (meshId am) \<in> set (renderAircraft mul p cam))
       \<and> (list_all hasMesh (instancedObjects (objects p))
            \<and> (name, ob) \<in> set (instancedObjects (objects p)) \<and> mesh ob = Some om \<longrightarrow>
            Draw (meshId om) \<in> set (emitted (renderInstances mul p cam)))
       \<and> renderAircraft mul
            (p\<lparr>objects := (objects p)\<lparr>instancedAircraft :=
               map (withFrustumTest test) (instancedAircraft (objects p))\<rparr>\<rparr>) cam
           = renderAircraft mul p cam
       \<and> renderInstances mul
            (p\<lparr>objects := (objects p)\<lparr>instancedObjects :=
               map (\<lambda>(name, ob). (name, withFrustumTest test ob)) (instancedObjects (objects p))\<rparr>\<rparr>) cam
           = renderInstances mul p cam"
proof -
  have b: "buildingsLoop mul c (tiles (objects p))
             = buildingsLoop mul c xs @ buildingsLoop mul c (t # ys)" for c
    by (simp only: assms buildingsLoop_append)
  have g: "huggingLoop mul (getTileParams (objects p)) c (tiles (objects p))
             = huggingLoop mul (getTileParams (objects p)) c xs
               @ huggingLoop mul (getTileParams (objects p)) c (t # ys)" for c
    by (simp only: assms huggingLoop_append)
  have 1: "extrudedMesh t = Some m \<and> \<not> inCameraFrustum m cam \<longrightarrow>
            renderBuildings mul p cam
              = renderBuildings mul (p\<lparr>objects := (objects p)\<lparr>tiles := xs @ ys\<rparr>\<rparr>) cam"
    by (simp add: renderBuildings_def b buildingsLoop_append)
  have 2: "huggingMesh t = Some h \<and> \<not> inCameraFrustum h cam \<longrightarrow>
            renderHuggingMeshes mul p cam
              = renderHuggingMeshes mul (p\<lparr>objects := (objects p)\<lparr>tiles := xs @ ys\<rparr>\<rparr>) cam"
    by (simp add: renderHuggingMeshes_def g huggingLoop_append)
  have 3: "extrudedMesh t = Some m \<and> inCameraFrustum m cam' \<longrightarrow>
            Draw (meshId m) \<in> set (renderBuildings mul p cam')"
    by (simp add: renderBuildings_def b)
  have 4: "huggingMesh t = Some h \<and> inCameraFrustum h cam' \<longrightarrow>
            Draw (meshId h) \<in> set (renderHuggingMeshes mul p cam')"
    by (simp add: renderHuggingMeshes_def g Let_def)
  have 5: "a \<in> set (instancedAircraft (objects p)) \<and> mesh a = Some am \<and> 0 < instanceCount am \<longrightarrow>
            Draw (meshId am) \<in> set (renderAircraft mul p cam)"
    unfolding renderAircraft_concat by (blast intro: aircraft_drawn_member)
  have 6: "list_all hasMesh (instancedObjects (objects p))
            \<and> (name, ob) \<in> set (instancedObjects (objects p)) \<and> mesh ob = Some om \<longrightarrow>
            Draw (meshId om) \<in> set (emitted (renderInstances mul p cam))"
    unfolding renderInstances_def by (blast intro: instances_drawn_member)
  have 7: "renderAircraft mul
            (p\<lparr>objects := (objects p)\<lparr>instancedAircraft :=
               map (withFrustumTest test) (instancedAircraft (objects p))\<rparr>\<rparr>) cam
           = renderAircraft mul p cam"
    by (simp add: renderAircraft_concat comp_def aircraftStep_withFrustumTest)
  have 8: "renderInstances mul
            (p\<lparr>objects := (objects p)\<lparr>instancedObjects :=
               map (\<lambda>(name, ob). (name, withFrustumTest test ob)) (instancedObjects (objects p))\<rparr>\<rparr>) cam
           = renderInstances mul p cam"
    by (simp add: renderInstances_def instancesLoop_withFrustumTest)
  from 1 2 3 4 5 6 7 8 show ?thesis by blast
qed

text \<open>
  The example tile is outside cascade 1 and inside cascade 0; the first aircraft and the
  rock, whose frustum tests reject every camera, are drawn for camera 1.
\<close>

theorem tiles_culled_by_frustum_witness:
  "tiles (objects examplePass) = [] @ exampleTile # [bareTile]
   \<and> extrudedMesh exampleTile = Some (exampleMesh 10 1 inNearCascade)
   \<and> huggingMesh exampleTile = Some (exampleMesh 11 1 outsideMiddleCascade)
   \<and> \<not> inCameraFrustum (exampleMesh 10 1 inNearCascade) (exampleCamera 1)
   \<and> \<not> inCameraFrustum (exampleMesh 11 1 outsideMiddleCascade) (exampleCamera 1)
   \<and> inCameraFrustum (exampleMesh 10 1 inNearCascade) (exampleCamera 0)
   \<and> inCameraFrustum (exampleMesh 11 1 outsideMiddleCascade) (exampleCamera 0)
   \<and> filter isDraw (renderBuildings (+) examplePass (exampleCamera 1)) = []
   \<and> filter isDraw (renderHuggingMeshes (+) examplePass (exampleCamera 1)) = []
   \<and> Draw 10 \<in> set (renderBuildings (+) examplePass (exampleCamera 0))
   \<and> Draw 11 \<in> set (renderHuggingMeshes (+) examplePass (exampleCamera 0))
   \<and> \<lparr>matrixWorld = 5, mesh = Some (exampleMesh 30 2 inNoCascade)\<rparr>
        \<in> set (instancedAircraft (objects examplePass))
   \<and> 0 < instanceCount (exampleMesh 30 2 inNoCascade)
   \<and> \<not> inCameraFrustum (exampleMesh 30 2 inNoCascade) (exampleCamera 1)
   \<and> Draw 30 \<in> set (renderAircraft (+) examplePass (exampleCamera 1))
   \<and> list_all hasMesh (instancedObjects (objects examplePass))
   \<and> (''rock'', \<lparr>matrixWorld = 4, mesh = Some (exampleMesh 21 5 inNoCascade)\<rparr>)
        \<in> set (instancedObjects (objects examplePass))
   \<and> \<not> inCameraFrustum (exampleMesh 21 5 inNoCascade) (exampleCamera 1)
   \<and> Draw 21 \<in> set (emitted (renderInstances (+) examplePass (exampleCamera 1)))"
  using tiles_culled_by_frustum
    [where p = examplePass and xs = "[]" and t = exampleTile and ys = "[bareTile]"
       and m = "exampleMesh 10 1 inNearCascade" and h = "exampleMesh 11 1 outsideMiddleCascade"
       and cam = "exampleCamera 1" and cam' = "exampleCamera 0" and mul = "(+)"
       and test = inEveryCascade
       and a = "\<lparr>matrixWorld = 5, mesh = Some (exampleMesh 30 2 inNoCascade)\<rparr>"
       and am = "exampleMesh 30 2 inNoCascade"
       and name = "''rock''"
       and ob = "\<lparr>matrixWorld = 4, mesh = Some (exampleMesh 21 5 inNoCascade)\<rparr>"
       and om = "exampleMesh 21 5 inNoCascade"]
  by (simp add: examplePass_def exampleObjects_def exampleTile_def bareTile_def exampleMesh_def
      inNearCascade_def outsideMiddleCascade_def inNoCascade_def exampleCamera_def
      renderBuildings_def renderHuggingMeshes_def hasMesh_def)

text \<open>
  Claim C4 as it was stated fails for the two instanced categories: the first aircraft and the
  tree of the example scene have meshes whose frustum test rejects every camera, and both
  are drawn in cascade 0.
\<close>

theorem untested_categories_counterexample:
  "mesh (instancedAircraft (objects examplePass) ! 0) = Some (exampleMesh 30 2 inNoCascade)
   \<and> \<not> inCameraFrustum (exampleMesh 30 2 inNoCascade) (exampleCamera 0)
   \<and> Draw (meshId (exampleMesh 30 2 inNoCascade)) \<in> set (renderAircraft (+) examplePass (exampleCamera 0))
   \<and> mesh (snd (instancedObjects (objects examplePass) ! 0)) = Some (exampleMesh 20 5 inNoCascade)
   \<and> \<not> inCameraFrustum (exampleMesh 20 5 inNoCascade) (exampleCamera 0)
   \<and> Draw (meshId (exampleMesh 20 5 inNoCascade))
        \<in> set (emitted (renderInstances (+) examplePass (exampleCamera 0)))"
  by (simp add: examplePass_def exampleObjects_def exampleMesh_def inNoCascade_def
      renderAircraft_concat aircraftStep_def renderInstances_def instanceSetup_def Let_def)

lemma buildingsLoop_per_item:
  "filter isBind (buildingsLoop mul cam ts) = []"
  "filter (writesUniform ''projectionMatrix'') (buildingsLoop mul cam ts) = []"
  "filter (flushesBlock ''PerMaterial'') (buildingsLoop mul cam ts) = []"
  by (induction ts) (simp_all split: option.splits)

lemma huggingLoop_per_item:
  "filter isBind (huggingLoop mul params cam ts) = []"
  "filter (writesUniform ''projectionMatrix'') (huggingLoop mul params cam ts) = []"
  "filter (writesUniform ''tRingHeight'') (huggingLoop mul params cam ts) = []"
  "filter (flushesBlock ''PerMaterial'') (huggingLoop mul params cam ts) = []"
  by (induction ts) (simp_all add: Let_def split: option.splits)

lemma count_concat_steps:
  assumes "\<And>a. length (filter P (f a)) = (if Q a then 1 else 0)"
  shows "length (filter P (concat (map f xs))) = length (filter Q xs)"
  by (induction xs) (simp_all add: assms)

lemma aircraftStep_counts:
  "length (filter isBind (aircraftStep mul cam a)) = (if aircraftDrawn a then 1 else 0)"
  "length (filter (writesUniform ''projectionMatrix'') (aircraftStep mul cam a)) = (if aircraftDrawn a then 1 else 0)"
  "length (filter (flushesBlock ''MainBlock'') (aircraftStep mul cam a)) = (if aircraftDrawn a then 1 else 0)"
  "length (filter isDraw (aircraftStep mul cam a)) = (if aircraftDrawn a then 1 else 0)"
  by (simp_all add: aircraftStep_def aircraftDrawn_def split: option.splits)

lemma renderAircraft_counts:
  "length (filter isBind (renderAircraft mul p cam)) = length (filter aircraftDrawn (instancedAircraft (objects p)))"
  "length (filter (writesUniform ''projectionMatrix'') (renderAircraft mul p cam)) = length (filter aircraftDrawn (instancedAircraft (objects p)))"
  "length (filter (flushesBlock ''MainBlock'') (renderAircraft mul p cam)) = length (filter aircraftDrawn (instancedAircraft (objects p)))"
  "length (filter isDraw (renderAircraft mul p cam)) = length (filter aircraftDrawn (instancedAircraft (objects p)))"
  unfolding renderAircraft_concat
  by (rule count_concat_steps, rule aircraftStep_counts)+

lemma instanceSetup_counts:
  "length (filter isBind (instanceSetup mul cam name ob)) = 1"
  "length (filter (writesUniform ''projectionMatrix'') (instanceSetup mul cam name ob)) = 1"
  "length (filter (flushesBlock ''MainBlock'') (instanceSetup mul cam name ob)) = 1"
  "length (filter isDraw (instanceSetup mul cam name ob)) = 0"
  by (simp_all add: instanceSetup_def Let_def)

lemma instancesLoop_count_setup:
  assumes s: "\<And>name ob. length (filter P (instanceSetup mul cam name ob)) = 1"
    and d: "\<And>k. \<not> P (Draw k)"
  shows "length (filter P (emitted (instancesLoop mul cam entries)))
           = length (takeWhile hasMesh entries) + (if list_all hasMesh entries then 0 else 1)"
proof (induction entries)
  case Nil
  then show ?case by simp
next
  case (Cons entry entries)
  obtain name ob where e: "entry = (name, ob)" by (cases entry)
  have hm: "hasMesh (name, ob) = (mesh ob \<noteq> None)"
    by (simp add: hasMesh_def)
  show ?case
    by (cases "mesh ob") (simp_all add: e hm emitted_andThen_Done s d Cons.IH)
qed

lemma instancesLoop_count_draws:
  "length (filter isDraw (emitted (instancesLoop mul cam entries)))
     = length (takeWhile hasMesh entries)"
proof (induction entries)
  case Nil
  then show ?case by simp
next
  case (Cons entry entries)
  obtain name ob where e: "entry = (name, ob)" by (cases entry)
  have hm: "hasMesh (name, ob) = (mesh ob \<noteq> None)"
    by (simp add: hasMesh_def)
  show ?case
    by (cases "mesh ob") (simp_all add: e hm emitted_andThen_Done instanceSetup_counts Cons.IH)
qed

lemma instancesLoop_counts:
  "length (filter isBind (emitted (instancesLoop mul cam entries)))
     = length (takeWhile hasMesh entries) + (if list_all hasMesh entries then 0 else 1)"
  "length (filter (writesUniform ''projectionMatrix'') (emitted (instancesLoop mul cam entries)))
     = length (takeWhile hasMesh entries) + (if list_all hasMesh entries then 0 else 1)"
  "length (filter (flushesBlock ''MainBlock'') (emitted (instancesLoop mul cam entries)))
     = length (takeWhile hasMesh entries) + (if list_all hasMesh entries then 0 else 1)"
proof -
  show "length (filter isBind (emitted (instancesLoop mul cam entries)))
     = length (takeWhile hasMesh entries) + (if list_all hasMesh entries then 0 else 1)"
    by (rule instancesLoop_count_setup) (simp_all add: instanceSetup_counts)
  show "length (filter (writesUniform ''projectionMatrix'') (emitted (instancesLoop mul cam entries)))
     = length (takeWhile hasMesh entries) + (if list_all hasMesh entries then 0 else 1)"
    by (rule instancesLoop_count_setup) (simp_all add: instanceSetup_counts)
  show "length (filter (flushesBlock ''MainBlock'') (emitted (instancesLoop mul cam entries)))
     = length (takeWhile hasMesh entries) + (if list_all hasMesh entries then 0 else 1)"
    by (rule instancesLoop_count_setup) (simp_all add: instanceSetup_counts)
qed

lemma aircraft_blocks:
  "concat (map (aircraftStep mul cam) xs) =
     concat (map (\<lambda>a.
        [UseMaterial aircraftMaterial,
         SetUniform aircraftMaterial ''projectionMatrix'' (Some ''MainBlock'')
           (UMatrix4 (projectionMatrix cam)),
         SetUniform aircraftMaterial ''modelViewMatrix'' (Some ''MainBlock'')
           (UMatrix4 (mul (matrixWorldInverse cam) (matrixWorld a))),
         UpdateUniformBlock aircraftMaterial ''MainBlock'',
         Draw (meshId (the (mesh a)))])
       (filter aircraftDrawn xs))"
  by (induction xs) (simp_all add: aircraftStep_def aircraftDrawn_def split: option.splits)

lemma instances_blocks:
  "list_all hasMesh entries \<Longrightarrow>
   instancesLoop mul cam entries =
     Done (concat (map (\<lambda>(name, ob).
        [UseMaterial (instanceMaterialFor name),
         SetUniform (instanceMaterialFor name) ''projectionMatrix'' (Some ''MainBlock'')
           (UMatrix4 (projectionMatrix cam)),
         SetUniform (instanceMaterialFor name) ''modelViewMatrix'' (Some ''MainBlock'')
           (UMatrix4 (mul (matrixWorldInverse cam) (matrixWorld ob))),
         UpdateUniformBlock (instanceMaterialFor name) ''MainBlock'',
         Draw (meshId (the (mesh ob)))])
       entries))"
  by (simp add: instancesLoop_present instanceSetup_def Let_def split_def)

lemma takeWhile_all: "list_all P xs \<Longrightarrow> takeWhile P xs = xs"
  by (induction xs) simp_all

text \<open>
  Claim C5, as amended. \<^verbatim>\<open>renderBuildings\<close> starts with one bind of the building
  material, one write of the cascade's projection matrix and one flush of
  \<^verbatim>\<open>PerMaterial\<close>, and issues none of the three again in its loop over the tiles.
  \<^verbatim>\<open>renderHuggingMeshes\<close> starts with one write of the ring-height texture, one bind,
  one write of the projection matrix and one flush of \<^verbatim>\<open>PerMaterial\<close>, and issues none
  of the four again. \<^verbatim>\<open>renderAircraft\<close> issues, for every aircraft it draws and in list
  order, one bind of the aircraft material, one write of the projection matrix, one write of
  the model-view matrix, one flush of \<^verbatim>\<open>MainBlock\<close> and then the draw, and nothing else.
  When every registered instanced object has a mesh, \<^verbatim>\<open>renderInstances\<close> completes and
  issues the same five events for every entry in registry order, with the material of the
  entry's name.
\<close>

theorem material_binding_per_category:
  "take 3 (renderBuildings mul p cam) =
     [UseMaterial buildingDepthMaterial,
      SetUniform buildingDepthMaterial ''projectionMatrix'' (Some ''PerMaterial'')
        (UMatrix4 (projectionMatrix cam)),
      UpdateUniformBlock buildingDepthMaterial ''PerMaterial'']
   \<and> length (filter isBind (renderBuildings mul p cam)) = 1
   \<and> length (filter (writesUniform ''projectionMatrix'') (renderBuildings mul p cam)) = 1
   \<and> length (filter (flushesBlock ''PerMaterial'') (renderBuildings mul p cam)) = 1
   \<and> take 4 (renderHuggingMeshes mul p cam) =
     [SetUniform huggingMeshMaterial ''tRingHeight'' None (UTexture (TerrainRingHeight p)),
      UseMaterial huggingMeshMaterial,
      SetUniform huggingMeshMaterial ''projectionMatrix'' (Some ''PerMaterial'')
        (UMatrix4 (projectionMatrix cam)),
      UpdateUniformBlock huggingMeshMaterial ''PerMaterial'']
   \<and> length (filter isBind (renderHuggingMeshes mul p cam)) = 1
   \<and> length (filter (writesUniform ''projectionMatrix'') (renderHuggingMeshes mul p cam)) = 1
   \<and> length (filter (writesUniform ''tRingHeight'') (renderHuggingMeshes mul p cam)) = 1
   \<and> length (filter (flushesBlock ''PerMaterial'') (renderHuggingMeshes mul p cam)) = 1
   \<and> renderAircraft mul p cam =
       concat (map (\<lambda>a.
          [UseMaterial aircraftMaterial,
           SetUniform aircraftMaterial ''projectionMatrix'' (Some ''MainBlock'')
             (UMatrix4 (projectionMatrix cam)),
           SetUniform aircraftMaterial ''modelViewMatrix'' (Some ''MainBlock'')
             (UMatrix4 (mul (matrixWorldInverse cam) (matrixWorld a))),
           UpdateUniformBlock aircraftMaterial ''MainBlock'',
           Draw (meshId (the (mesh a)))])
         (filter aircraftDrawn (instancedAircraft (objects p))))
   \<and> length (filter isBind (renderAircraft mul p cam))
       = length (filter aircraftDrawn (instancedAircraft (objects p)))
   \<and> length (filter (writesUniform ''projectionMatrix'') (renderAircraft mul p cam))
       = length (filter aircraftDrawn (instancedAircraft (objects p)))
   \<and> length (filter (flushesBlock ''MainBlock'') (renderAircraft mul p cam))
       = length (filter aircraftDrawn (instancedAircraft (objects p)))
   \<and> length (filter isDraw (renderAircraft mul p cam))
       = length (filter aircraftDrawn (instancedAircraft (objects p)))
   \<and> (list_all hasMesh (instancedObjects (objects p)) \<longrightarrow>
        renderInstances mul p cam =
          Done (concat (map (\<lambda>(name, ob).
             [UseMaterial (instanceMaterialFor name),
              SetUniform (instanceMaterialFor name) ''projectionMatrix'' (Some ''MainBlock'')
                (UMatrix4 (projectionMatrix cam)),
              SetUniform (instanceMaterialFor name) ''modelViewMatrix'' (Some ''MainBlock'')
                (UMatrix4 (mul (matrixWorldInverse cam) (matrixWorld ob))),
              UpdateUniformBlock (instanceMaterialFor name) ''MainBlock'',
              Draw (meshId (the (mesh ob)))])
            (instancedObjects (objects p))))
        \<and> length (filter isBind (emitted (renderInstances mul p cam)))
            = length (instancedObjects (objects p))
        \<and> length (filter (writesUniform ''projectionMatrix'') (emitted (renderInstances mul p cam)))
            = length (instancedObjects (objects p))
        \<and> length (filter (flushesBlock ''MainBlock'') (emitted (renderInstances mul p cam)))
            = length (instancedObjects (objects p))
        \<and> length (filter isDraw (emitted (renderInstances mul p cam)))
            = length (instancedObjects (objects p)))"
proof -
  have b: "take 3 (renderBuildings mul p cam) =
     [UseMaterial buildingDepthMaterial,
      SetUniform buildingDepthMaterial ''projectionMatrix'' (Some ''PerMaterial'')
        (UMatrix4 (projectionMatrix cam)),
      UpdateUniformBlock buildingDepthMaterial ''PerMaterial'']"
    "length (filter isBind (renderBuildings mul p cam)) = 1"
    "length (filter (writesUniform ''projectionMatrix'') (renderBuildings mul p cam)) = 1"
    "length (filter (flushesBlock ''PerMaterial'') (renderBuildings mul p cam)) = 1"
    by (simp_all add: renderBuildings_def buildingsLoop_per_item)
  have h: "take 4 (renderHuggingMeshes mul p cam) =
     [SetUniform huggingMeshMaterial ''tRingHeight'' None (UTexture (TerrainRingHeight p)),
      UseMaterial huggingMeshMaterial,
      SetUniform huggingMeshMaterial ''projectionMatrix'' (Some ''PerMaterial'')
        (UMatrix4 (projectionMatrix cam)),
      UpdateUniformBlock huggingMeshMaterial ''PerMaterial'']"
    "length (filter isBind (renderHuggingMeshes mul p cam)) = 1"
    "length (filter (writesUniform ''projectionMatrix'') (renderHuggingMeshes mul p cam)) = 1"
    "length (filter (writesUniform ''tRingHeight'') (renderHuggingMeshes mul p cam)) = 1"
    "length (filter (flushesBlock ''PerMaterial'') (renderHuggingMeshes mul p cam)) = 1"
    by (simp_all add: renderHuggingMeshes_def huggingLoop_per_item)
  have a: "renderAircraft mul p cam =
       concat (map (\<lambda>a.
          [UseMaterial aircraftMaterial,
           SetUniform aircraftMaterial ''projectionMatrix'' (Some ''MainBlock'')
             (UMatrix4 (projectionMatrix cam)),
           SetUniform aircraftMaterial ''modelViewMatrix'' (Some ''MainBlock'')
             (UMatrix4 (mul (matrixWorldInverse cam) (matrixWorld a))),
           UpdateUniformBlock aircraftMaterial ''MainBlock'',
           Draw (meshId (the (mesh a)))])
         (filter aircraftDrawn (instancedAircraft (objects p))))"
    unfolding renderAircraft_concat by (rule aircraft_blocks)
  have i: "renderInstances mul p cam =
          Done (concat (map (\<lambda>(name, ob).
             [UseMaterial (instanceMaterialFor name),
              SetUniform (instanceMaterialFor name) ''projectionMatrix'' (Some ''MainBlock'')
                (UMatrix4 (projectionMatrix cam)),
              SetUniform (instanceMaterialFor name) ''modelViewMatrix'' (Some ''MainBlock'')
                (UMatrix4 (mul (matrixWorldInverse cam) (matrixWorld ob))),
              UpdateUniformBlock (instanceMaterialFor name) ''MainBlock'',
              Draw (meshId (the (mesh ob)))])
            (instancedObjects (objects p))))"
    if "list_all hasMesh (instancedObjects (objects p))"
    unfolding renderInstances_def using that by (rule instances_blocks)
  have c: "length (filter isBind (emitted (renderInstances mul p cam)))
            = length (instancedObjects (objects p))"
    "length (filter (writesUniform ''projectionMatrix'') (emitted (renderInstances mul p cam)))
            = length (instancedObjects (objects p))"
    "length (filter (flushesBlock ''MainBlock'') (emitted (renderInstances mul p cam)))
            = length (instancedObjects (objects p))"
    "length (filter isDraw (emitted (renderInstances mul p cam)))
            = length (instancedObjects (objects p))"
    if "list_all hasMesh (instancedObjects (objects p))"
    unfolding renderInstances_def using that
    by (simp_all add: instancesLoop_counts instancesLoop_count_draws takeWhile_all)
  from b h a i c renderAircraft_counts [of mul p cam] show ?thesis
    by blast
qed

text \<open>The example scene for camera 1: every registered object has a mesh.\<close>

theorem material_binding_per_category_witness:
  "list_all hasMesh (instancedObjects (objects examplePass))
   \<and> length (filter isBind (renderBuildings (+) examplePass (exampleCamera 1))) = 1
   \<and> length (filter isBind (renderHuggingMeshes (+) examplePass (exampleCamera 1))) = 1
   \<and> renderAircraft (+) examplePass (exampleCamera 1) =
       [UseMaterial aircraftMaterial,
        SetUniform aircraftMaterial ''projectionMatrix'' (Some ''MainBlock'') (UMatrix4 101),
        SetUniform aircraftMaterial ''modelViewMatrix'' (Some ''MainBlock'') (UMatrix4 206),
        UpdateUniformBlock aircraftMaterial ''MainBlock'',
        Draw 30]
   \<and> length (filter isBind (emitted (renderInstances (+) examplePass (exampleCamera 1)))) = 2
   \<and> length (filter isDraw (emitted (renderInstances (+) examplePass (exampleCamera 1)))) = 2
   \<and> completed (renderInstances (+) examplePass (exampleCamera 1))"
  using material_binding_per_category [of "(+)" examplePass "exampleCamera 1"]
  by (simp add: examplePass_def exampleObjects_def aircraftDrawn_def exampleMesh_def hasMesh_def
      exampleCamera_def)

text \<open>
  Claim C5 as it was stated fails for the aircraft: with two aircraft to draw, one cascade
  binds the aircraft material twice and writes and flushes the projection matrix twice.
\<close>

theorem aircraft_binding_counterexample:
  "count_list (renderAircraft (+) twoAircraftPass (exampleCamera 0)) (UseMaterial aircraftMaterial) = 2
   \<and> count_list (renderAircraft (+) twoAircraftPass (exampleCamera 0))
        (SetUniform aircraftMaterial ''projectionMatrix'' (Some ''MainBlock'') (UMatrix4 100)) = 2
   \<and> count_list (renderAircraft (+) twoAircraftPass (exampleCamera 0))
        (UpdateUniformBlock aircraftMaterial ''MainBlock'') = 2"
  by (simp add: twoAircraftPass_def examplePass_def exampleObjects_def exampleMesh_def
      exampleCamera_def renderAircraft_concat aircraftStep_def)

lemma absent_handles_skipped:
  "extrudedMesh t = None \<Longrightarrow> buildingsLoop mul cam (t # ts) = buildingsLoop mul cam ts"
  "huggingMesh t = None \<Longrightarrow> huggingLoop mul params cam (t # ts) = huggingLoop mul params cam ts"
  "mesh a = None \<Longrightarrow> aircraftStep mul cam a = []"
  by (simp_all add: aircraftStep_def)

text \<open>
  Claim C6, at the input where it fails. The registry of the scene holds one object named
  \<^verbatim>\<open>'tree'\<close> whose mesh is \<^verbatim>\<open>null\<close>. \<^verbatim>\<open>render\<close> binds the tree material for it,
  writes both matrices, flushes \<^verbatim>\<open>MainBlock\<close> and then raises a \<^verbatim>\<open>TypeError\<close> on
  \<^verbatim>\<open>instancedObject.mesh.draw()\<close>; nothing else of the frame is rendered. Tiles and
  aircraft without a mesh are skipped (lemma \<open>absent_handles_skipped\<close>).
\<close>

theorem meshless_instanced_object_raises:
  "render (+) meshlessTreePass =
     Raised TypeError
       [SetSlice 0, BeginRenderPass,
        UseMaterial treeMaterial,
        SetUniform treeMaterial ''projectionMatrix'' (Some ''MainBlock'') (UMatrix4 100),
        SetUniform treeMaterial ''modelViewMatrix'' (Some ''MainBlock'') (UMatrix4 203),
        UpdateUniformBlock treeMaterial ''MainBlock'']"
  by (subst render_def, subst renderFrom.simps)
     (simp add: meshlessTreePass_def examplePass_def exampleObjects_def renderCascade_def
        renderInstances_def instanceSetup_def instanceMaterialFor_def exampleCamera_def Let_def)

lemma aircraftStep_skip:
  "mesh a = Some m \<Longrightarrow> instanceCount m = 0 \<Longrightarrow> aircraftStep mul cam a = []"
  by (simp add: aircraftStep_def)

text \<open>
  Claim C7. An aircraft whose mesh is present and whose instance count is zero makes the
  aircraft loop issue nothing: no bind of the aircraft material, no uniform, no draw.
  Wherever it stands in the list, the events are those of the list without it; alone
  in the list, there is no event at all.
\<close>

theorem aircraft_zero_instances_skipped:
  assumes "mesh a = Some m" and "instanceCount m = 0"
  shows "aircraftStep mul cam a = []
     \<and> renderAircraft mul (p\<lparr>objects := (objects p)\<lparr>instancedAircraft := xs @ a # ys\<rparr>\<rparr>) cam
       = renderAircraft mul (p\<lparr>objects := (objects p)\<lparr>instancedAircraft := xs @ ys\<rparr>\<rparr>) cam
     \<and> renderAircraft mul (p\<lparr>objects := (objects p)\<lparr>instancedAircraft := [a]\<rparr>\<rparr>) cam = []"
  using assms by (simp add: renderAircraft_concat aircraftStep_skip)

text \<open>The second aircraft of the example scene has a mesh with no instance.\<close>

theorem aircraft_zero_instances_skipped_witness:
  "mesh \<lparr>matrixWorld = 6 :: nat, mesh = Some (exampleMesh 31 0 inEveryCascade)\<rparr>
     = Some (exampleMesh 31 0 inEveryCascade)
   \<and> instanceCount (exampleMesh 31 0 inEveryCascade) = 0
   \<and> renderAircraft (+) examplePass (exampleCamera 0)
     = renderAircraft (+)
         (examplePass\<lparr>objects := exampleObjects\<lparr>instancedAircraft :=
            [\<lparr>matrixWorld = 5, mesh = Some (exampleMesh 30 2 inNoCascade)\<rparr>,
             \<lparr>matrixWorld = 7, mesh = None\<rparr>]\<rparr>\<rparr>)
         (exampleCamera 0)
   \<and> filter isBind (renderAircraft (+)
         (examplePass\<lparr>objects := exampleObjects\<lparr>instancedAircraft :=
            [\<lparr>matrixWorld = 6, mesh = Some (exampleMesh 31 0 inEveryCascade)\<rparr>]\<rparr>\<rparr>)
         (exampleCamera 0)) = []"
  using aircraft_zero_instances_skipped
    [where a = "\<lparr>matrixWorld = 6, mesh = Some (exampleMesh 31 0 inEveryCascade)\<rparr>"
       and m = "exampleMesh 31 0 inEveryCascade" and mul = "(+)" and cam = "exampleCamera 0"
       and p = examplePass
       and xs = "[\<lparr>matrixWorld = 5, mesh = Some (exampleMesh 30 2 inNoCascade)\<rparr>]"
       and ys = "[\<lparr>matrixWorld = 7, mesh = None\<rparr>]"]
  by (simp add: examplePass_def exampleObjects_def exampleMesh_def)

lemma drawsWith_instances:
  "drawsWith cur (emitted (instancesLoop mul cam entries)) =
     map (\<lambda>(name, ob). (meshId (the (mesh ob)),
                         Some (if name = ''tree'' then treeMaterial else instanceMaterial)))
       (takeWhile hasMesh entries)"
proof (induction entries arbitrary: cur)
  case Nil
  then show ?case by simp
next
  case (Cons entry entries)
  obtain name ob where e: "entry = (name, ob)" by (cases entry)
  show ?case
  proof (cases "mesh ob")
    case None
    then show ?thesis
      by (simp add: e hasMesh_def instanceSetup_def Let_def)
  next
    case (Some m)
    then show ?thesis
      by (simp add: e hasMesh_def emitted_andThen_Done instanceSetup_def Let_def
          instanceMaterialFor_def Cons.IH)
  qed
qed

text \<open>
  Claim C8. Every draw that \<^verbatim>\<open>renderInstances\<close> issues uses the tree material when the
  name of the entry is exactly \<^verbatim>\<open>'tree'\<close> and the instance material for every other
  name, \<^verbatim>\<open>'rock'\<close> and the empty name included; the draws are those of the entries, in
  registry order, up to the first entry without mesh.
\<close>

theorem instances_material_by_name:
  "drawsWith cur (emitted (renderInstances mul p cam)) =
     map (\<lambda>(name, ob). (meshId (the (mesh ob)),
                         Some (if name = ''tree'' then treeMaterial else instanceMaterial)))
       (takeWhile hasMesh (instancedObjects (objects p)))
   \<and> (instanceMaterialFor name = treeMaterial) = (name = ''tree'')
   \<and> (instanceMaterialFor name = instanceMaterial) = (name \<noteq> ''tree'')
   \<and> instanceMaterialFor ''tree'' = treeMaterial
   \<and> instanceMaterialFor ''rock'' = instanceMaterial
   \<and> instanceMaterialFor '''' = instanceMaterial"
  by (simp add: renderInstances_def drawsWith_instances instanceMaterialFor_def)

text \<open>The tree and the rock of the example scene.\<close>

theorem instances_material_by_name_witness:
  "drawsWith None (emitted (renderInstances (+) examplePass (exampleCamera 0))) =
     [(20, Some treeMaterial), (21, Some instanceMaterial)]"
  using instances_material_by_name [of None "(+)" examplePass "exampleCamera 0" "''rock''"]
  by (simp add: examplePass_def exampleObjects_def hasMesh_def exampleMesh_def)

end
